theory Spec2Isabelle
  imports Complex_Main "HOL-Library.Sublist"
begin

section \<open>SleepGuard daemon: data model\<close>

text \<open>
  A shallow embedding of \<^verbatim>\<open>SleepGuardDaemon\<close> (sleepguard_daemon.py).

  A naive local \<^verbatim>\<open>datetime\<close> is the number of microseconds on the local time line
  (the resolution of Python's datetime), counted from midnight of some day; a
  \<^verbatim>\<open>timedelta\<close> is a difference of two of them. Python's range limits on both types are
  left out. Floating-point values are modelled by real numbers.
\<close>

type_synonym datetime = int
type_synonym timedelta = int

definition hour :: "datetime \<Rightarrow> int" where
  "hour t = (t div 3600000000) mod 24"

definition total_seconds :: "timedelta \<Rightarrow> real" where
  "total_seconds d = real_of_int d / 1000000"

definition timedelta_seconds :: "int \<Rightarrow> timedelta" where
  "timedelta_seconds s = s * 1000000"

text \<open>
  The configuration is the dictionary read from config.json; every access in the daemon is
  \<^verbatim>\<open>self.config.get(key, default)\<close>, so each key may be absent.
\<close>

record config =
  bedtime_hour :: "int option"
  critical_hour :: "int option"
  max_session_hours :: "real option"
  notification_levels :: "int list option"
  keystroke_window_seconds :: "int option"
  save_interval_seconds :: "int option"

definition get :: "'a option \<Rightarrow> 'a \<Rightarrow> 'a" where
  "get v d = (case v of None \<Rightarrow> d | Some x \<Rightarrow> x)"

definition default_config :: config where
  "default_config =
     \<lparr>bedtime_hour = Some 23, critical_hour = Some 2, max_session_hours = Some 4,
      notification_levels = Some [30, 60, 90], keystroke_window_seconds = Some 60,
      save_interval_seconds = Some 60\<rparr>"

record daemon =
  config :: config
  session_start :: datetime
  keystroke_count :: int
  last_keystroke_time :: datetime
  keystroke_history :: "datetime list"
  fatigue_score :: int
  last_notification_level :: int
  running :: bool

text \<open>\<^verbatim>\<open>__init__\<close>: the two clock reads of the constructor are its arguments.\<close>

definition init :: "config \<Rightarrow> datetime \<Rightarrow> datetime \<Rightarrow> daemon" where
  "init cfg t1 t2 =
     \<lparr>config = cfg, session_start = t1, keystroke_count = 0, last_keystroke_time = t2,
      keystroke_history = [], fatigue_score = 0, last_notification_level = 0,
      running = True\<rparr>"

datatype error = ZeroDivisionError

section \<open>Keystroke window\<close>

text \<open>\<^verbatim>\<open>on_press\<close>; the argument \<open>current_time\<close> is its clock read.\<close>

definition on_press :: "datetime \<Rightarrow> daemon \<Rightarrow> daemon" where
  "on_press current_time st =
     (let cutoff_time = current_time
            - timedelta_seconds (get (keystroke_window_seconds (config st)) 60)
      in st\<lparr>keystroke_count := keystroke_count st + 1,
            last_keystroke_time := current_time,
            keystroke_history :=
              filter (\<lambda>t. t > cutoff_time) (keystroke_history st @ [current_time])\<rparr>)"

definition get_keystroke_rate :: "daemon \<Rightarrow> int" where
  "get_keystroke_rate st =
     (if length (keystroke_history st) > 0 then int (length (keystroke_history st)) else 0)"

section \<open>Fatigue score\<close>

text \<open>Factor 1 of \<^verbatim>\<open>calculate_fatigue_score\<close> (lines 92-105).\<close>

definition hours_past_bedtime :: "int \<Rightarrow> int \<Rightarrow> int" where
  "hours_past_bedtime bedtime current_hour =
     (if current_hour \<ge> bedtime then current_hour - bedtime
      else (24 - bedtime) + current_hour)"

definition time_score :: "config \<Rightarrow> int \<Rightarrow> int" where
  "time_score cfg current_hour =
     (let bedtime = get (bedtime_hour cfg) 23 in
      if current_hour \<ge> bedtime \<or> current_hour < 6
      then min 30 (hours_past_bedtime bedtime current_hour * 7)
      else 0)"

text \<open>
  Factor 2 (lines 107-114). \<open>session_duration\<close> is in hours. Python's float division
  raises ZeroDivisionError on a zero divisor.
\<close>

definition duration_score :: "config \<Rightarrow> real \<Rightarrow> error + real" where
  "duration_score cfg session_duration =
     (let max_session = get (max_session_hours cfg) 4 in
      if session_duration > 1
      then (if max_session = 0 then Inl ZeroDivisionError
            else Inr (min 40 ((session_duration / max_session) * 40)))
      else Inr 0)"

text \<open>Factor 3 (lines 116-138), on the retained history.\<close>

definition keystroke_rate_score :: "datetime list \<Rightarrow> int" where
  "keystroke_rate_score history =
     (if length history > 0 then
        (let current_rate = length history in
         if current_rate < 30 then 30
         else if current_rate < 60 then 20
         else if current_rate < 90 then 10
         else 0)
      else 25)"

text \<open>Python's \<^verbatim>\<open>int(x)\<close> on a number: truncation towards zero.\<close>

definition py_int :: "real \<Rightarrow> int" where
  "py_int x = (if x \<ge> 0 then \<lfloor>x\<rfloor> else \<lceil>x\<rceil>)"

definition calculate_fatigue_score :: "datetime \<Rightarrow> daemon \<Rightarrow> error + int" where
  "calculate_fatigue_score current_time st =
     (let current_hour = hour current_time;
          ts = time_score (config st) current_hour;
          session_duration = total_seconds (current_time - session_start st) / 3600
      in case duration_score (config st) session_duration of
           Inl e \<Rightarrow> Inl e
         | Inr ds \<Rightarrow>
             (let rs = keystroke_rate_score (keystroke_history st);
                  total_score = real_of_int ts + ds + real_of_int rs
              in Inr (min 100 (py_int total_score))))"

section \<open>Environment of one evaluation\<close>

text \<open>
  What the daemon reads from outside during one pass of the loop body: the successive
  clock reads (\<^verbatim>\<open>datetime.now()\<close>) in the order the code makes them, whether the
  notification sink accepts the call and whether sampling and writing the statistics
  succeeds (either may raise), and the two psutil samples. The several clock reads inside
  \<^verbatim>\<open>save_stats\<close> are taken as one instant, \<open>now_stats\<close>.
\<close>

record tick =
  now_score :: datetime
  now_notify :: datetime
  now_gate :: datetime
  now_stats :: datetime
  now_saved :: datetime
  sink_ok :: bool
  store_ok :: bool
  cpu_percent :: real
  memory_percent :: real

text \<open>
  The three title literals of \<^verbatim>\<open>send_notification\<close> carry a non-ASCII pictograph each and
  are named here: "SleepGuard: CRITICAL ALERT!", "SleepGuard: High Fatigue Detected",
  "SleepGuard: Fatigue Warning".
\<close>

datatype title = Critical_alert | High_fatigue_detected | Fatigue_warning

record notice =
  title :: title
  message :: string
  app_name :: string
  timeout :: int

record snapshot =
  timestamp :: datetime
  snap_session_start :: datetime
  session_duration_seconds :: real
  total_keystrokes :: int
  current_keystroke_rate :: int
  snap_fatigue_score :: int
  current_hour :: int
  snap_cpu_percent :: real
  snap_memory_percent :: real

datatype effect =
    Notify notice
  | Print_notification_sent title
  | Print_error_sending_notification
  | Write_stats snapshot
  | Print_stats_saved int int int
  | Print_error_saving_stats
  | Print_error_in_monitor_loop error
  | Listener_start
  | Listener_stop
  | Print_stopping
  | Print_stopped

section \<open>Notifications\<close>

text \<open>Python's \<^verbatim>\<open>str\<close> on an integer, as the f-string of \<^verbatim>\<open>get_session_duration\<close> uses it.\<close>

definition digit_char :: "nat \<Rightarrow> char" where
  "digit_char d = ''0123456789'' ! d"

fun str_nat :: "nat \<Rightarrow> string" where
  "str_nat n = (if n < 10 then [digit_char n] else str_nat (n div 10) @ [digit_char (n mod 10)])"

declare str_nat.simps [simp del]

definition str_int :: "int \<Rightarrow> string" where
  "str_int i = (if i < 0 then CHR ''-'' # str_nat (nat (- i)) else str_nat (nat i))"

text \<open>Python's \<^verbatim>\<open>//\<close> and \<^verbatim>\<open>%\<close> on floats round towards minus infinity.\<close>

definition floordiv :: "real \<Rightarrow> real \<Rightarrow> real" where
  "floordiv x y = of_int \<lfloor>x / y\<rfloor>"

definition pymod :: "real \<Rightarrow> real \<Rightarrow> real" where
  "pymod x y = x - y * of_int \<lfloor>x / y\<rfloor>"

definition get_session_duration :: "datetime \<Rightarrow> daemon \<Rightarrow> string" where
  "get_session_duration now st =
     (let duration = now - session_start st;
          hours = py_int (floordiv (total_seconds duration) 3600);
          minutes = py_int (floordiv (pymod (total_seconds duration) 3600) 60)
      in str_int hours @ ''h '' @ str_int minutes @ ''m'')"

text \<open>
  \<^verbatim>\<open>notification.notify\<close> followed by the log line, inside the \<^verbatim>\<open>try\<close> of
  \<^verbatim>\<open>send_notification\<close>: a sink that raises leaves only the error line.
\<close>

definition notify :: "tick \<Rightarrow> notice \<Rightarrow> effect list" where
  "notify tk n =
     (if sink_ok tk then [Notify n, Print_notification_sent (title n)]
      else [Print_error_sending_notification])"

definition send_notification :: "tick \<Rightarrow> daemon \<Rightarrow> int \<Rightarrow> effect list" where
  "send_notification tk st fatigue_level =
     (if fatigue_level \<ge> 90 then
        notify tk \<lparr>title = Critical_alert,
          message = ''You've been working way too long! Please rest NOW.'',
          app_name = ''SleepGuard'', timeout = 10\<rparr>
      else if fatigue_level \<ge> 60 then
        notify tk \<lparr>title = High_fatigue_detected,
          message = ''Consider taking a break soon. Your productivity is declining.'',
          app_name = ''SleepGuard'', timeout = 8\<rparr>
      else if fatigue_level \<ge> 30 then
        notify tk \<lparr>title = Fatigue_warning,
          message = ''You've been working for '' @ get_session_duration (now_notify tk) st
                    @ ''. Time for a break?'',
          app_name = ''SleepGuard'', timeout = 5\<rparr>
      else [])"

section \<open>Statistics\<close>

definition save_stats :: "tick \<Rightarrow> daemon \<Rightarrow> effect list" where
  "save_stats tk st =
     (if store_ok tk then
        [Write_stats
           \<lparr>timestamp = now_stats tk,
            snap_session_start = session_start st,
            session_duration_seconds = total_seconds (now_stats tk - session_start st),
            total_keystrokes = keystroke_count st,
            current_keystroke_rate = get_keystroke_rate st,
            snap_fatigue_score = fatigue_score st,
            current_hour = hour (now_stats tk),
            snap_cpu_percent = cpu_percent tk,
            snap_memory_percent = memory_percent tk\<rparr>,
         Print_stats_saved (fatigue_score st) (keystroke_count st) (get_keystroke_rate st)]
      else [Print_error_saving_stats])"

section \<open>Monitor loop\<close>

text \<open>
  The \<^verbatim>\<open>for level in sorted(notification_levels)\<close> loop (lines 227-231) acts only in the
  iteration where it breaks; \<open>first_crossed\<close> walks the sorted levels and returns the level
  of that iteration, if there is one.
\<close>

fun first_crossed :: "int \<Rightarrow> int \<Rightarrow> int list \<Rightarrow> int option" where
  "first_crossed current_score last_level [] = None"
| "first_crossed current_score last_level (level # levels) =
     (if current_score \<ge> level \<and> last_level < level then Some level
      else first_crossed current_score last_level levels)"

text \<open>Lines 225-235: the notification check, then the reset.\<close>

definition alert_gate :: "tick \<Rightarrow> int \<Rightarrow> daemon \<Rightarrow> effect list \<times> daemon" where
  "alert_gate tk current_score st =
     (let notification_levels = get (notification_levels (config st)) [30, 60, 90];
          (out, st1) =
            (case first_crossed current_score (last_notification_level st)
                    (sort notification_levels) of
               None \<Rightarrow> ([], st)
             | Some level \<Rightarrow>
                 (send_notification tk st current_score,
                  st\<lparr>last_notification_level := level\<rparr>));
          st2 = (if current_score < 30 then st1\<lparr>last_notification_level := 0\<rparr> else st1)
      in (out, st2))"

text \<open>
  One pass of the body of \<^verbatim>\<open>while self.running\<close> (lines 219-247); \<open>last_save_time\<close> is
  the local variable of \<^verbatim>\<open>monitor_loop\<close>. An exception of the score computation is caught
  by the handler of the loop body, which skips the rest of the pass.
\<close>

definition monitor_cycle ::
  "tick \<Rightarrow> daemon \<times> datetime \<Rightarrow> effect list \<times> (daemon \<times> datetime)" where
  "monitor_cycle tk s =
     (let (st, last_save_time) = s;
          save_interval = get (save_interval_seconds (config st)) 60
      in case calculate_fatigue_score (now_score tk) st of
           Inl e \<Rightarrow> ([Print_error_in_monitor_loop e], (st, last_save_time))
         | Inr current_score \<Rightarrow>
             (let st1 = st\<lparr>fatigue_score := current_score\<rparr>;
                  (out1, st2) = alert_gate tk current_score st1
              in if total_seconds (now_gate tk - last_save_time) \<ge> real_of_int save_interval
                 then (out1 @ save_stats tk st2, (st2, now_saved tk))
                 else (out1, (st2, last_save_time))))"

text \<open>
  What happens while the loop runs: the listener thread delivers key presses and the loop
  makes its passes. Both take the lock for their updates of the shared fields; a run is
  modelled as the sequence of these events.
\<close>

datatype input = Key_press datetime | Evaluate tick

fun step :: "input \<Rightarrow> daemon \<times> datetime \<Rightarrow> effect list \<times> (daemon \<times> datetime)" where
  "step (Key_press t) (st, last_save_time) = ([], (on_press t st, last_save_time))"
| "step (Evaluate tk) s = monitor_cycle tk s"

fun run :: "input list \<Rightarrow> daemon \<times> datetime \<Rightarrow> effect list \<times> (daemon \<times> datetime)" where
  "run [] s = ([], s)"
| "run (i # is) s =
     (let (out1, s1) = step i s; (out2, s2) = run is s1 in (out1 @ out2, s2))"




section \<open>Observations on a run\<close>

text \<open>The clock reads of the key presses among the events of a run, in order.\<close>

fun key_times :: "input list \<Rightarrow> datetime list" where
  "key_times [] = []"
| "key_times (Key_press t # is) = t # key_times is"
| "key_times (Evaluate tk # is) = key_times is"

text \<open>The timestamps of the snapshots written, in order.\<close>

fun save_times :: "effect list \<Rightarrow> datetime list" where
  "save_times [] = []"
| "save_times (Write_stats sn # es) = timestamp sn # save_times es"
| "save_times (e # es) = save_times es"

text \<open>The notifications delivered to the sink, in order.\<close>

fun notices :: "effect list \<Rightarrow> notice list" where
  "notices [] = []"
| "notices (Notify n # es) = n # notices es"
| "notices (e # es) = notices es"

text \<open>
  The alert gate over successive evaluations, each given by its environment and the score
  it computed: the level at which the notification loop breaks in each evaluation
  (\<open>None\<close> where it runs to its end).
\<close>

fun crossings :: "(tick \<times> int) list \<Rightarrow> daemon \<Rightarrow> int option list" where
  "crossings [] st = []"
| "crossings ((tk, current_score) # rest) st =
     first_crossed current_score (last_notification_level st)
       (sort (get (notification_levels (config st)) [30, 60, 90]))
     # crossings rest (snd (alert_gate tk current_score st))"

text \<open>The snapshots written, in order.\<close>

fun snapshots :: "effect list \<Rightarrow> snapshot list" where
  "snapshots [] = []"
| "snapshots (Write_stats sn # es) = sn # snapshots es"
| "snapshots (e # es) = snapshots es"

text \<open>The events of a run with the notification sink made to accept or to raise throughout.\<close>

fun with_sink :: "bool \<Rightarrow> input \<Rightarrow> input" where
  "with_sink b (Key_press t) = Key_press t"
| "with_sink b (Evaluate tk) = Evaluate (tk\<lparr>sink_ok := b\<rparr>)"

section \<open>Example states\<close>

text \<open>
  A daemon with the default configuration, started at midnight of day 0, after key presses
  at seconds 1, 50 and 58.
\<close>

definition typing_daemon :: daemon where
  "typing_daemon =
     on_press 58000000 (on_press 50000000 (on_press 1000000 (init default_config 0 0)))"

text \<open>An environment whose clock reads all return \<open>t\<close> and whose calls all succeed.\<close>

definition tick_at :: "datetime \<Rightarrow> tick" where
  "tick_at t =
     \<lparr>now_score = t, now_notify = t, now_gate = t, now_stats = t, now_saved = t,
      sink_ok = True, store_ok = True, cpu_percent = 0, memory_percent = 0\<rparr>"

section \<open>Properties of the fatigue score\<close>









text \<open>
  Both bounds on the configuration are needed for the lower end of the range: a bedtime
  hour of 30 makes the time factor negative after midnight, and a maximal session length
  of 0 makes the division raise once the session is longer than an hour.
\<close>

lemma fatigue_score_outside_config_range:
  "calculate_fatigue_score 0 (init (default_config\<lparr>bedtime_hour := Some 30\<rparr>) 0 0)
     = Inr (- 17)
   \<and> calculate_fatigue_score (2 * 3600000000)
        (init (default_config\<lparr>max_session_hours := Some 0\<rparr>) 0 0)
     = Inl ZeroDivisionError"
  by (simp add: calculate_fatigue_score_def init_def default_config_def hour_def
      time_score_def get_def hours_past_bedtime_def total_seconds_def duration_score_def
      keystroke_rate_score_def py_int_def)

text \<open>
  Claim C3. The rate factor is tiered on the number of retained events with strict
  cutoffs: 25 for an empty history, 30 for 1-29 events, 20 for 30-59, 10 for 60-89 and 0
  from 90 on.
\<close>

theorem keystroke_rate_score_tiers:
  "keystroke_rate_score h =
     (if length h = 0 then 25
      else if length h < 30 then 30
      else if length h < 60 then 20
      else if length h < 90 then 10
      else 0)"
  by (simp add: keystroke_rate_score_def Let_def)

text \<open>The boundary values: 0, 29, 30, 59, 60, 89 and 90 retained events.\<close>

theorem keystroke_rate_score_tiers_witness:
  "keystroke_rate_score [] = 25
   \<and> keystroke_rate_score (replicate 29 0) = 30
   \<and> keystroke_rate_score (replicate 30 0) = 20
   \<and> keystroke_rate_score (replicate 59 0) = 20
   \<and> keystroke_rate_score (replicate 60 0) = 10
   \<and> keystroke_rate_score (replicate 89 0) = 10
   \<and> keystroke_rate_score (replicate 90 0) = 0"
  using keystroke_rate_score_tiers [of "[]"]
    keystroke_rate_score_tiers [of "replicate 29 0"]
    keystroke_rate_score_tiers [of "replicate 30 0"]
    keystroke_rate_score_tiers [of "replicate 59 0"]
    keystroke_rate_score_tiers [of "replicate 60 0"]
    keystroke_rate_score_tiers [of "replicate 89 0"]
    keystroke_rate_score_tiers [of "replicate 90 0"]
  by simp

text \<open>
  Claim C4, as stated, gives 7 at hour 23 and 14 at hour 0 for a bedtime of 23. The hours
  past bedtime are 0 at the bedtime hour itself, so the code gives 0 and 7.
\<close>

theorem time_score_bedtime_23_counterexample:
  "\<not> (time_score default_config 23 = 7 \<and> time_score default_config 0 = 14)"
  by (simp add: time_score_def default_config_def get_def hours_past_bedtime_def)

text \<open>
  Claim C4, amended. The time factor is 0 for every hour outside the late-night band
  (hour at least the bedtime hour, or hour below 6) and min(30, hoursPastBedtime * 7)
  inside it, where hoursPastBedtime is hour - bedtime for hour at least bedtime and
  (24 - bedtime) + hour otherwise; inside the band it is non-decreasing in
  hoursPastBedtime; with a bedtime of 23 it is 0 at hour 23, 7 at hour 0 and 30 (clamped
  from 35) at hour 4.
\<close>

theorem time_score_band:
  "(\<not> (h \<ge> get (bedtime_hour cfg) 23 \<or> h < 6) \<longrightarrow> time_score cfg h = 0)
   \<and> ((h \<ge> get (bedtime_hour cfg) 23 \<or> h < 6) \<longrightarrow>
        time_score cfg h = min 30 (hours_past_bedtime (get (bedtime_hour cfg) 23) h * 7))
   \<and> hours_past_bedtime (get (bedtime_hour cfg) 23) h
       = (if h \<ge> get (bedtime_hour cfg) 23 then h - get (bedtime_hour cfg) 23
          else (24 - get (bedtime_hour cfg) 23) + h)
   \<and> (\<forall>h'. (h \<ge> get (bedtime_hour cfg) 23 \<or> h < 6)
          \<and> (h' \<ge> get (bedtime_hour cfg) 23 \<or> h' < 6)
          \<and> hours_past_bedtime (get (bedtime_hour cfg) 23) h
              \<le> hours_past_bedtime (get (bedtime_hour cfg) 23) h'
          \<longrightarrow> time_score cfg h \<le> time_score cfg h')
   \<and> (bedtime_hour cfg = Some 23 \<longrightarrow>
        time_score cfg 23 = 0 \<and> time_score cfg 0 = 7 \<and> time_score cfg 4 = 30
        \<and> hours_past_bedtime 23 4 * 7 = 35)"
proof -
  let ?b = "get (bedtime_hour cfg) 23"
  have mono: "\<forall>h'. (h \<ge> ?b \<or> h < 6) \<and> (h' \<ge> ?b \<or> h' < 6)
          \<and> hours_past_bedtime ?b h \<le> hours_past_bedtime ?b h'
          \<longrightarrow> time_score cfg h \<le> time_score cfg h'"
    by (auto simp add: time_score_def Let_def)
  have ex: "bedtime_hour cfg = Some 23 \<longrightarrow>
        time_score cfg 23 = 0 \<and> time_score cfg 0 = 7 \<and> time_score cfg 4 = 30
        \<and> hours_past_bedtime 23 4 * 7 = 35"
    by (simp add: time_score_def Let_def hours_past_bedtime_def get_def)
  have band: "(\<not> (h \<ge> ?b \<or> h < 6) \<longrightarrow> time_score cfg h = 0)
     \<and> ((h \<ge> ?b \<or> h < 6) \<longrightarrow> time_score cfg h = min 30 (hours_past_bedtime ?b h * 7))"
    by (simp add: time_score_def Let_def)
  have hpb: "hours_past_bedtime ?b h = (if h \<ge> ?b then h - ?b else (24 - ?b) + h)"
    by (simp add: hours_past_bedtime_def)
  from band hpb mono ex show ?thesis by blast
qed

theorem time_score_band_witness:
  "time_score default_config 12 = 0
   \<and> time_score default_config 23 = 0
   \<and> time_score default_config 0 = 7
   \<and> time_score default_config 3 = 28
   \<and> time_score default_config 4 = 30
   \<and> time_score default_config 0 \<le> time_score default_config 3"
  using time_score_band [where h = 12 and cfg = default_config]
    time_score_band [where h = 0 and cfg = default_config]
    time_score_band [where h = 3 and cfg = default_config]
  by (simp add: default_config_def get_def hours_past_bedtime_def)

text \<open>
  Claim C10, as stated, computes the hours past bedtime as hour - bedtime at every hour
  when the bedtime is below 6. For an hour before the bedtime the code takes the other
  branch: with bedtime 2, hour 1 counts 23 hours past bedtime and scores 30, where
  hour - bedtime would give -7.
\<close>

theorem time_score_early_bedtime_counterexample:
  "time_score (default_config\<lparr>bedtime_hour := Some 2\<rparr>) 1
     \<noteq> min 30 ((1 - get (bedtime_hour (default_config\<lparr>bedtime_hour := Some 2\<rparr>)) 23) * 7)"
  by (simp add: time_score_def get_def hours_past_bedtime_def)

text \<open>
  Claim C10, amended. When the bedtime hour is below 6 the late-night band holds at every
  hour, so the time factor is min(30, hoursPastBedtime * 7) at every hour of the day, with
  hoursPastBedtime = hour - bedtime for hour at least bedtime and (24 - bedtime) + hour
  for hour below bedtime; no hour takes the branch that sets the factor to 0, and hour 23
  with bedtime 2 gives the clamped maximum 30.
\<close>

theorem time_score_early_bedtime:
  assumes "get (bedtime_hour cfg) 23 < 6"
  shows "(h \<ge> get (bedtime_hour cfg) 23 \<or> h < 6)
   \<and> time_score cfg h = min 30 (hours_past_bedtime (get (bedtime_hour cfg) 23) h * 7)
   \<and> hours_past_bedtime (get (bedtime_hour cfg) 23) h
       = (if h \<ge> get (bedtime_hour cfg) 23 then h - get (bedtime_hour cfg) 23
          else (24 - get (bedtime_hour cfg) 23) + h)
   \<and> (bedtime_hour cfg = Some 2 \<longrightarrow> time_score cfg 23 = 30)"
  using assms by (auto simp add: time_score_def Let_def hours_past_bedtime_def get_def)

theorem time_score_early_bedtime_witness:
  "get (bedtime_hour (default_config\<lparr>bedtime_hour := Some 2\<rparr>)) 23 < 6
   \<and> time_score (default_config\<lparr>bedtime_hour := Some 2\<rparr>) 23 = 30
   \<and> time_score (default_config\<lparr>bedtime_hour := Some 2\<rparr>) 12 = 30
   \<and> time_score (default_config\<lparr>bedtime_hour := Some 2\<rparr>) 1 = 30
   \<and> time_score (default_config\<lparr>bedtime_hour := Some 2\<rparr>) 3 = 7"
proof -
  have b: "get (bedtime_hour (default_config\<lparr>bedtime_hour := Some 2\<rparr>)) 23 < 6"
    by (simp add: get_def)
  show ?thesis
    using b time_score_early_bedtime [OF b, where h = 23]
      time_score_early_bedtime [OF b, where h = 12]
      time_score_early_bedtime [OF b, where h = 1]
      time_score_early_bedtime [OF b, where h = 3]
    by (simp add: get_def hours_past_bedtime_def)
qed

section \<open>Properties of the keystroke window\<close>

lemma alert_gate_history:
  "keystroke_history (snd (alert_gate tk s st)) = keystroke_history st"
  by (simp add: alert_gate_def Let_def split: option.splits)

lemma monitor_cycle_history:
  "keystroke_history (fst (snd (monitor_cycle tk (st, l)))) = keystroke_history st"
  by (simp add: monitor_cycle_def Let_def split_beta alert_gate_history split: sum.splits)

lemma on_press_subseq:
  "subseq (keystroke_history (on_press t st)) (keystroke_history st @ [t])"
  by (simp add: on_press_def Let_def del: filter_append filter.simps)

lemma run_history_subseq:
  "subseq (keystroke_history (fst (snd (run inputs (st, l)))))
          (keystroke_history st @ key_times inputs)"
proof (induction inputs arbitrary: st l)
  case Nil
  then show ?case by simp
next
  case (Cons i inputs)
  show ?case
  proof (cases i)
    case (Key_press t)
    have a: "subseq (keystroke_history (fst (snd (run inputs (on_press t st, l)))))
            (keystroke_history (on_press t st) @ key_times inputs)"
      by (rule Cons.IH)
    have b: "subseq (keystroke_history (on_press t st) @ key_times inputs)
            ((keystroke_history st @ [t]) @ key_times inputs)"
      using on_press_subseq by (rule list_emb_append_mono) simp
    have eq: "keystroke_history (fst (snd (run (i # inputs) (st, l))))
        = keystroke_history (fst (snd (run inputs (on_press t st, l))))"
      using Key_press by (simp add: split_beta)
    have kt: "keystroke_history st @ key_times (i # inputs)
        = (keystroke_history st @ [t]) @ key_times inputs"
      using Key_press by simp
    show ?thesis
      unfolding eq kt using a b by (rule subseq_order.trans)
  next
    case (Evaluate tk)
    obtain out st1 l1 where mc: "monitor_cycle tk (st, l) = (out, (st1, l1))"
      by (metis prod.exhaust)
    have "keystroke_history st1 = keystroke_history st"
      using monitor_cycle_history [of tk st l] mc by simp
    then show ?thesis
      using Evaluate mc Cons.IH [of st1 l1] by (simp add: split_beta)
  qed
qed

lemma on_press_nonempty:
  "0 < get (keystroke_window_seconds (config st)) 60 \<Longrightarrow> keystroke_history (on_press t st) \<noteq> []"
  by (simp add: on_press_def Let_def timedelta_seconds_def)

text \<open>
  Claim C7. For a positive window length: after \<open>on_press\<close> at time \<open>t\<close> the history is
  the previously retained events later than \<open>t\<close> minus the window, followed by the new
  event; over any run the history is a subsequence of the earlier history followed by the
  new key presses, so an event that is no longer retained appears again only if it is
  pressed again; the rate is the number of retained events, 0 for an empty history.
\<close>

theorem keystroke_window_invariant:
  assumes w: "0 < get (keystroke_window_seconds (config st)) 60"
  shows "keystroke_history (on_press t st)
           = filter (\<lambda>x. x > t - timedelta_seconds (get (keystroke_window_seconds (config st)) 60))
                    (keystroke_history st) @ [t]
         \<and> (\<forall>inputs l. subseq (keystroke_history (fst (snd (run inputs (st, l)))))
                               (keystroke_history st @ key_times inputs))
         \<and> (\<forall>inputs l x. x \<notin> set (keystroke_history st) \<and> x \<notin> set (key_times inputs)
               \<longrightarrow> x \<notin> set (keystroke_history (fst (snd (run inputs (st, l))))))
         \<and> get_keystroke_rate st = int (length (keystroke_history st))
         \<and> (keystroke_history st = [] \<longrightarrow> get_keystroke_rate st = 0)"
proof -
  have a: "keystroke_history (on_press t st)
           = filter (\<lambda>x. x > t - timedelta_seconds (get (keystroke_window_seconds (config st)) 60))
                    (keystroke_history st) @ [t]"
    using w by (simp add: on_press_def Let_def timedelta_seconds_def)
  have b: "\<forall>inputs l. subseq (keystroke_history (fst (snd (run inputs (st, l)))))
                               (keystroke_history st @ key_times inputs)"
    using run_history_subseq by blast
  have c: "\<forall>inputs l x. x \<notin> set (keystroke_history st) \<and> x \<notin> set (key_times inputs)
               \<longrightarrow> x \<notin> set (keystroke_history (fst (snd (run inputs (st, l)))))"
  proof (intro allI impI)
    fix inputs l x
    assume x: "x \<notin> set (keystroke_history st) \<and> x \<notin> set (key_times inputs)"
    show "x \<notin> set (keystroke_history (fst (snd (run inputs (st, l)))))"
    proof
      assume xin: "x \<in> set (keystroke_history (fst (snd (run inputs (st, l)))))"
      from run_history_subseq [of inputs st l] xin
      obtain y where "y \<in> set (keystroke_history st @ key_times inputs)" and "x = y"
        by (rule list_emb_set)
      with x show False by simp
    qed
  qed
  have d: "get_keystroke_rate st = int (length (keystroke_history st))
         \<and> (keystroke_history st = [] \<longrightarrow> get_keystroke_rate st = 0)"
    by (simp add: get_keystroke_rate_def)
  from a b c d show ?thesis by blast
qed

text \<open>
  After presses at seconds 1, 50 and 58 a press at second 115 retains 58 and 115; the
  press of second 1 stays out under two more presses.
\<close>

theorem keystroke_window_invariant_witness:
  "0 < get (keystroke_window_seconds (config typing_daemon)) 60
   \<and> keystroke_history (on_press 115000000 typing_daemon) = [58000000, 115000000]
   \<and> 1000000 \<notin> set (keystroke_history (fst (snd (run [Key_press 116000000, Key_press 117000000] (on_press 115000000 typing_daemon, 0)))))
   \<and> get_keystroke_rate typing_daemon = 3"
proof -
  have w: "0 < get (keystroke_window_seconds (config typing_daemon)) 60"
    by (simp add: typing_daemon_def on_press_def Let_def init_def default_config_def get_def)
  have hist: "keystroke_history typing_daemon = [1000000, 50000000, 58000000]"
    by (simp add: typing_daemon_def on_press_def Let_def init_def default_config_def get_def
        timedelta_seconds_def)
  have cut: "115000000 - timedelta_seconds (get (keystroke_window_seconds (config typing_daemon)) 60) = 55000000"
    by (simp add: typing_daemon_def on_press_def Let_def init_def default_config_def get_def timedelta_seconds_def)
  note inv = keystroke_window_invariant [OF w, of 115000000]
  from inv have "keystroke_history (on_press 115000000 typing_daemon)
      = filter (\<lambda>x. x > 115000000 - timedelta_seconds (get (keystroke_window_seconds (config typing_daemon)) 60))
          (keystroke_history typing_daemon) @ [115000000]"
    by (rule conjunct1)
  then have h: "keystroke_history (on_press 115000000 typing_daemon) = [58000000, 115000000]"
    unfolding cut hist by simp
  have w2: "0 < get (keystroke_window_seconds (config (on_press 115000000 typing_daemon))) 60"
    by (simp add: typing_daemon_def on_press_def Let_def init_def default_config_def get_def)
  from keystroke_window_invariant [OF w2, of 0]
  have "\<forall>inputs l x. x \<notin> set (keystroke_history (on_press 115000000 typing_daemon))
          \<and> x \<notin> set (key_times inputs)
          \<longrightarrow> x \<notin> set (keystroke_history (fst (snd (run inputs (on_press 115000000 typing_daemon, l)))))"
    by blast
  then have "1000000 \<notin> set (keystroke_history (on_press 115000000 typing_daemon))
          \<and> 1000000 \<notin> set (key_times [Key_press 116000000, Key_press 117000000])
          \<longrightarrow> 1000000 \<notin> set (keystroke_history
                (fst (snd (run [Key_press 116000000, Key_press 117000000]
                   (on_press 115000000 typing_daemon, 0)))))"
    by blast
  then have e: "1000000 \<notin> set (keystroke_history
                (fst (snd (run [Key_press 116000000, Key_press 117000000]
                   (on_press 115000000 typing_daemon, 0)))))"
    unfolding h by simp
  from inv have "get_keystroke_rate typing_daemon = int (length (keystroke_history typing_daemon))"
    by blast
  then have r: "get_keystroke_rate typing_daemon = 3"
    unfolding hist by simp
  from w h e r show ?thesis by blast
qed


section \<open>Properties of the alert gate\<close>

lemma first_crossed_None:
  "first_crossed s l ls = None \<longleftrightarrow> (\<forall>L\<in>set ls. \<not> (s \<ge> L \<and> l < L))"
  by (induction ls) auto

lemma first_crossed_Some:
  "first_crossed s l ls = Some L \<Longrightarrow> L \<in> set ls \<and> s \<ge> L \<and> l < L"
  by (induction ls) (auto split: if_splits)

lemma first_crossed_least:
  "sorted ls \<Longrightarrow> first_crossed s l ls = Some L \<Longrightarrow> L' \<in> set ls \<Longrightarrow> s \<ge> L' \<Longrightarrow> l < L'
     \<Longrightarrow> L \<le> L'"
  by (induction ls) (auto split: if_splits)

lemma first_crossed_Min:
  assumes "sorted ls" and "first_crossed s l ls = Some L"
  shows "L = Min {L' \<in> set ls. s \<ge> L' \<and> l < L'}"
proof -
  have fin: "finite {L' \<in> set ls. s \<ge> L' \<and> l < L'}" by simp
  have mem: "L \<in> {L' \<in> set ls. s \<ge> L' \<and> l < L'}"
    using first_crossed_Some [OF assms(2)] by simp
  have le: "\<And>y. y \<in> {L' \<in> set ls. s \<ge> L' \<and> l < L'} \<Longrightarrow> L \<le> y"
    using first_crossed_least [OF assms] by simp
  show ?thesis
    using Min_eqI [OF fin le mem] by simp
qed

lemma notices_notify: "length (notices (notify tk n)) \<le> Suc 0"
  by (simp add: notify_def)

lemma notices_send_notification: "length (notices (send_notification tk st s)) \<le> Suc 0"
  by (simp add: send_notification_def notices_notify)

lemma alert_gate_last:
  "last_notification_level (snd (alert_gate tk s st))
     = (if s < 30 then 0
        else case first_crossed s (last_notification_level st)
                    (sort (get (notification_levels (config st)) [30, 60, 90])) of
               None \<Rightarrow> last_notification_level st | Some L \<Rightarrow> L)"
  by (simp add: alert_gate_def Let_def split: option.splits)

lemma alert_gate_last_mono:
  "30 \<le> s \<Longrightarrow> last_notification_level st \<le> last_notification_level (snd (alert_gate tk s st))"
  by (auto simp add: alert_gate_last split: option.splits dest: first_crossed_Some)

lemma crossing_above_last:
  "j < length evs \<Longrightarrow> (\<forall>k<j. 30 \<le> snd (evs ! k)) \<Longrightarrow> crossings evs st ! j = Some L'
     \<Longrightarrow> last_notification_level st < L'"
proof (induction evs arbitrary: st j)
  case Nil
  then show ?case by simp
next
  case (Cons ev evs)
  obtain tk s where ev: "ev = (tk, s)" by (cases ev)
  show ?case
  proof (cases j)
    case 0
    with Cons.prems ev show ?thesis
      by (auto dest: first_crossed_Some)
  next
    case (Suc j')
    have s30: "30 \<le> s"
      using Cons.prems(2) ev Suc by auto
    have rest: "\<forall>k<j'. 30 \<le> snd (evs ! k)"
      using Cons.prems(2) Suc by auto
    have "crossings evs (snd (alert_gate tk s st)) ! j' = Some L'"
      using Cons.prems(3) ev Suc by simp
    with Cons.IH [of j' "snd (alert_gate tk s st)"] Cons.prems(1) Suc rest
    have "last_notification_level (snd (alert_gate tk s st)) < L'"
      by simp
    with alert_gate_last_mono [OF s30, of st tk] show ?thesis
      by simp
  qed
qed

lemma alert_gate_config: "config (snd (alert_gate tk s st)) = config st"
  by (simp add: alert_gate_def Let_def split: option.splits)

text \<open>
  The alert gate is the only part of a run that changes the last notification level: a
  pass whose score computation returns applies the gate to that score, a pass whose score
  computation raises and a key press leave the level as it is.
\<close>

lemma monitor_cycle_gate:
  "calculate_fatigue_score (now_score tk) st = Inr s \<Longrightarrow>
     fst (snd (monitor_cycle tk (st, l))) = snd (alert_gate tk s (st\<lparr>fatigue_score := s\<rparr>))"
  by (simp add: monitor_cycle_def Let_def split_beta)

lemma monitor_cycle_raise:
  "calculate_fatigue_score (now_score tk) st = Inl e \<Longrightarrow>
     fst (snd (monitor_cycle tk (st, l))) = st"
  by (simp add: monitor_cycle_def Let_def)

lemma on_press_last_notification_level:
  "last_notification_level (on_press t st) = last_notification_level st"
  by (simp add: on_press_def Let_def)

text \<open>
  Claim C2. With \<open>C\<close> the set of configured levels \<open>L\<close> such that the score \<open>s\<close> is at
  least \<open>L\<close> and the last notification level is below \<open>L\<close>: if \<open>C\<close> is empty the gate
  sends nothing; otherwise it makes the one call \<open>send_notification\<close> with the score
  \<open>s\<close> and sets the last notification level to the least member of \<open>C\<close>. After that
  the level is 0 if \<open>s\<close> is below 30, also when the call was just made, and is left as
  it is otherwise. At most one notification reaches the sink.
\<close>

theorem alert_gate_transition:
  "(({L \<in> set (get (notification_levels (config st)) [30, 60, 90]).
        s \<ge> L \<and> last_notification_level st < L} = {}) \<longrightarrow>
      fst (alert_gate tk s st) = []
      \<and> last_notification_level (snd (alert_gate tk s st))
          = (if s < 30 then 0 else last_notification_level st))
   \<and> (({L \<in> set (get (notification_levels (config st)) [30, 60, 90]).
        s \<ge> L \<and> last_notification_level st < L} \<noteq> {}) \<longrightarrow>
      fst (alert_gate tk s st) = send_notification tk st s
      \<and> last_notification_level (snd (alert_gate tk s st))
          = (if s < 30 then 0
             else Min {L \<in> set (get (notification_levels (config st)) [30, 60, 90]).
                        s \<ge> L \<and> last_notification_level st < L}))
   \<and> length (notices (fst (alert_gate tk s st))) \<le> 1"
proof -
  let ?ls = "sort (get (notification_levels (config st)) [30, 60, 90])"
  let ?C = "{L \<in> set (get (notification_levels (config st)) [30, 60, 90]).
        s \<ge> L \<and> last_notification_level st < L}"
  have C: "?C = {L \<in> set ?ls. s \<ge> L \<and> last_notification_level st < L}"
    by simp
  show ?thesis
  proof (cases "first_crossed s (last_notification_level st) ?ls")
    case None
    then have e: "?C = {}"
      unfolding C first_crossed_None by blast
    have g: "fst (alert_gate tk s st) = []
        \<and> last_notification_level (snd (alert_gate tk s st))
            = (if s < 30 then 0 else last_notification_level st)"
      using None by (simp add: alert_gate_def Let_def)
    then have n: "length (notices (fst (alert_gate tk s st))) \<le> 1"
      by simp
    have p1: "?C = {} \<longrightarrow>
        fst (alert_gate tk s st) = []
        \<and> last_notification_level (snd (alert_gate tk s st))
            = (if s < 30 then 0 else last_notification_level st)"
      using g by blast
    have p2: "?C \<noteq> {} \<longrightarrow>
        fst (alert_gate tk s st) = send_notification tk st s
        \<and> last_notification_level (snd (alert_gate tk s st))
            = (if s < 30 then 0 else Min ?C)"
      using e by blast
    from p1 p2 n show ?thesis by blast
  next
    case (Some L)
    have "L \<in> ?C"
      unfolding C using first_crossed_Some [OF Some] by simp
    then have ne: "?C \<noteq> {}" by blast
    have LMin: "Min ?C = L"
      unfolding C using first_crossed_Min [OF _ Some] by simp
    have g: "fst (alert_gate tk s st) = send_notification tk st s
        \<and> last_notification_level (snd (alert_gate tk s st)) = (if s < 30 then 0 else L)"
      using Some by (simp add: alert_gate_def Let_def)
    have n: "length (notices (fst (alert_gate tk s st))) \<le> 1"
      using g notices_send_notification [of tk st s] by simp
    have p1: "?C = {} \<longrightarrow>
        fst (alert_gate tk s st) = []
        \<and> last_notification_level (snd (alert_gate tk s st))
            = (if s < 30 then 0 else last_notification_level st)"
      using ne by blast
    have p2: "?C \<noteq> {} \<longrightarrow>
        fst (alert_gate tk s st) = send_notification tk st s
        \<and> last_notification_level (snd (alert_gate tk s st))
            = (if s < 30 then 0 else Min ?C)"
      unfolding LMin using g by blast
    from p1 p2 n show ?thesis by blast
  qed
qed

text \<open>
  Default levels, nothing sent yet, score 65: one call with 65, level 30. Level 60 and
  score 20: nothing sent, level back to 0. Levels 60 and 10, score 15: the call is made
  for level 10 and the level is back to 0 in the same pass.
\<close>

theorem alert_gate_transition_witness:
  "fst (alert_gate (tick_at 0) 65 (init default_config 0 0))
     = send_notification (tick_at 0) (init default_config 0 0) 65
   \<and> last_notification_level (snd (alert_gate (tick_at 0) 65 (init default_config 0 0))) = 30
   \<and> fst (alert_gate (tick_at 0) 20 ((init default_config 0 0)\<lparr>last_notification_level := 60\<rparr>)) = []
   \<and> last_notification_level
        (snd (alert_gate (tick_at 0) 20 ((init default_config 0 0)\<lparr>last_notification_level := 60\<rparr>))) = 0
   \<and> fst (alert_gate (tick_at 0) 15
          (init (default_config\<lparr>notification_levels := Some [60, 10]\<rparr>) 0 0))
     = send_notification (tick_at 0)
          (init (default_config\<lparr>notification_levels := Some [60, 10]\<rparr>) 0 0) 15
   \<and> last_notification_level
        (snd (alert_gate (tick_at 0) 15
          (init (default_config\<lparr>notification_levels := Some [60, 10]\<rparr>) 0 0))) = 0"
proof -
  let ?st = "init default_config 0 0"
  let ?st' = "(init default_config 0 0)\<lparr>last_notification_level := 60\<rparr>"
  have C: "{L \<in> set (get (notification_levels (config ?st)) [30, 60, 90]).
        65 \<ge> L \<and> last_notification_level ?st < L} = {30, 60}"
    by (auto simp add: init_def default_config_def get_def)
  have C': "{L \<in> set (get (notification_levels (config ?st')) [30, 60, 90]).
        20 \<ge> L \<and> last_notification_level ?st' < L} = {}"
    by (auto simp add: init_def default_config_def get_def)
  have ne: "{30, 60 :: int} \<noteq> {}" by simp
  have m: "Min {30, 60 :: int} = 30" by simp
  from alert_gate_transition [of ?st 65 "tick_at 0"]
  have a: "fst (alert_gate (tick_at 0) 65 ?st) = send_notification (tick_at 0) ?st 65
      \<and> last_notification_level (snd (alert_gate (tick_at 0) 65 ?st)) = 30"
    unfolding C m using ne by simp
  from alert_gate_transition [of ?st' 20 "tick_at 0"]
  have b: "fst (alert_gate (tick_at 0) 20 ?st') = []
      \<and> last_notification_level (snd (alert_gate (tick_at 0) 20 ?st')) = 0"
    unfolding C' by simp
  let ?st2 = "init (default_config\<lparr>notification_levels := Some [60, 10]\<rparr>) 0 0"
  have C2: "{L \<in> set (get (notification_levels (config ?st2)) [30, 60, 90]).
        15 \<ge> L \<and> last_notification_level ?st2 < L} = {10}"
    by (auto simp add: init_def default_config_def get_def)
  from alert_gate_transition [of ?st2 15 "tick_at 0"]
  have c: "fst (alert_gate (tick_at 0) 15 ?st2) = send_notification (tick_at 0) ?st2 15
      \<and> last_notification_level (snd (alert_gate (tick_at 0) 15 ?st2)) = 0"
    unfolding C2 by simp
  from a b c show ?thesis by blast
qed

text \<open>
  Claim C6. Over any sequence of evaluations from any state: if the loop breaks at level
  \<open>L\<close> in evaluation \<open>i\<close> and at a level \<open>L'\<close> not above \<open>L\<close> in a later evaluation
  \<open>j\<close>, then some evaluation from \<open>i\<close> on and before \<open>j\<close> computed a score below 30
  (and so reset the level to 0).
\<close>

theorem no_repeat_without_reset:
  "i < j \<Longrightarrow> j < length evs \<Longrightarrow> crossings evs st ! i = Some L
     \<Longrightarrow> crossings evs st ! j = Some L' \<Longrightarrow> L' \<le> L
     \<Longrightarrow> \<exists>k. i \<le> k \<and> k < j \<and> snd (evs ! k) < 30"
proof (induction evs arbitrary: st i j)
  case Nil
  then show ?case by simp
next
  case (Cons ev evs)
  obtain tk s where ev: "ev = (tk, s)" by (cases ev)
  obtain j' where j: "j = Suc j'"
    using Cons.prems(1) by (cases j) auto
  have cj: "crossings evs (snd (alert_gate tk s st)) ! j' = Some L'"
    using Cons.prems(4) ev j by simp
  have lj: "j' < length evs"
    using Cons.prems(2) j by simp
  show ?case
  proof (cases i)
    case 0
    have fc: "first_crossed s (last_notification_level st)
        (sort (get (notification_levels (config st)) [30, 60, 90])) = Some L"
      using Cons.prems(3) ev 0 by simp
    show ?thesis
    proof (rule ccontr)
      assume no: "\<not> (\<exists>k. i \<le> k \<and> k < j \<and> snd ((ev # evs) ! k) < 30)"
      have all: "\<forall>k<j. 30 \<le> snd ((ev # evs) ! k)"
      proof (intro allI impI)
        fix k assume "k < j"
        with no 0 have "\<not> snd ((ev # evs) ! k) < 30" by blast
        then show "30 \<le> snd ((ev # evs) ! k)" by simp
      qed
      then have s30: "30 \<le> s"
        using ev j by auto
      have rest: "\<forall>k<j'. 30 \<le> snd (evs ! k)"
        using all j by auto
      have "last_notification_level (snd (alert_gate tk s st)) = L"
        using s30 fc by (simp add: alert_gate_last)
      with crossing_above_last [OF lj rest cj] have "L < L'" by simp
      with Cons.prems(5) show False by simp
    qed
  next
    case (Suc i')
    have ci: "crossings evs (snd (alert_gate tk s st)) ! i' = Some L"
      using Cons.prems(3) ev Suc by simp
    have "i' < j'" using Cons.prems(1) Suc j by simp
    from Cons.IH [OF this lj ci cj Cons.prems(5)]
    obtain k where "i' \<le> k" "k < j'" "snd (evs ! k) < 30" by blast
    then have "i \<le> Suc k \<and> Suc k < j \<and> snd ((ev # evs) ! Suc k) < 30"
      using Suc j by simp
    then show ?thesis by blast
  qed
qed


text \<open>Scores 35, 65, 20, 35: level 30 fires twice, with the reset at score 20 between.\<close>

theorem no_repeat_without_reset_witness:
  "crossings [(tick_at 0, 35), (tick_at 0, 65), (tick_at 0, 20), (tick_at 0, 35)]
      (init default_config 0 0) = [Some 30, Some 60, None, Some 30]
   \<and> (\<exists>k. 0 \<le> k \<and> k < 3
        \<and> snd ([(tick_at 0, 35), (tick_at 0, 65), (tick_at 0, 20), (tick_at 0, 35 :: int)] ! k) < 30)"
proof -
  let ?evs = "[(tick_at 0, 35), (tick_at 0, 65), (tick_at 0, 20), (tick_at 0, 35 :: int)]"
  let ?st = "init default_config 0 0"
  have cfg: "get (notification_levels (config ?st)) [30, 60, 90] = [30, 60, 90]"
    by (simp add: init_def default_config_def get_def)
  have c: "crossings ?evs ?st = [Some 30, Some 60, None, Some 30]"
    by (simp add: alert_gate_config alert_gate_last cfg) (simp add: init_def)
  have i: "crossings ?evs ?st ! 0 = Some 30" unfolding c by simp
  have j: "crossings ?evs ?st ! 3 = Some 30" unfolding c by simp
  have "\<exists>k. 0 \<le> k \<and> k < 3 \<and> snd (?evs ! k) < 30"
    by (rule no_repeat_without_reset [OF _ _ i j]) simp_all
  with c show ?thesis by blast
qed


section \<open>Properties of notifications\<close>

lemma alert_gate_sink:
  "snd (alert_gate (tk\<lparr>sink_ok := b\<rparr>) s st) = snd (alert_gate tk s st)"
  by (simp add: alert_gate_def Let_def split: option.splits)

lemma save_times_append: "save_times (xs @ ys) = save_times xs @ save_times ys"
  by (induction xs rule: save_times.induct) simp_all

lemma save_times_notify: "save_times (notify tk n) = []"
  by (simp add: notify_def)

lemma save_times_send_notification: "save_times (send_notification tk st s) = []"
  by (simp add: send_notification_def save_times_notify)

lemma save_times_alert_gate: "save_times (fst (alert_gate tk s st)) = []"
  by (simp add: alert_gate_def Let_def save_times_send_notification split: option.splits)

lemma save_times_save_stats:
  "save_times (save_stats tk st) = (if store_ok tk then [now_stats tk] else [])"
  by (simp add: save_stats_def)

lemma save_stats_sink: "save_stats (tk\<lparr>sink_ok := b\<rparr>) st = save_stats tk st"
  by (simp add: save_stats_def)

lemma monitor_cycle_sink:
  "snd (monitor_cycle (tk\<lparr>sink_ok := b\<rparr>) s) = snd (monitor_cycle tk s)
   \<and> save_times (fst (monitor_cycle (tk\<lparr>sink_ok := b\<rparr>) s)) = save_times (fst (monitor_cycle tk s))"
proof (cases s)
  case (Pair st l)
  show ?thesis
    unfolding Pair
    by (simp add: monitor_cycle_def Let_def split_beta alert_gate_sink save_times_append
        save_times_alert_gate save_times_save_stats split: sum.splits)
qed

lemma run_sink:
  "snd (run (map (with_sink b) inputs) s) = snd (run inputs s)
   \<and> save_times (fst (run (map (with_sink b) inputs) s)) = save_times (fst (run inputs s))"
proof (induction inputs arbitrary: s)
  case Nil
  then show ?case by simp
next
  case (Cons i inputs)
  obtain st l where s: "s = (st, l)" by (cases s)
  show ?case
  proof (cases i)
    case (Key_press t)
    then show ?thesis
      using Cons.IH [of "(on_press t st, l)"] s by (simp add: split_beta)
  next
    case (Evaluate tk)
    then show ?thesis
      using Cons.IH [of "snd (monitor_cycle tk s)"] monitor_cycle_sink [where tk = tk and b = b and s = s]
      by (simp add: split_beta save_times_append)
  qed
qed

lemma session_duration_example:
  "get_session_duration (3 * 3600000000 + 125000000) (init default_config 0 0) = ''3h 2m''"
  by (simp add: get_session_duration_def init_def total_seconds_def floordiv_def pymod_def
      py_int_def str_int_def str_nat.simps digit_char_def Let_def)

text \<open>
  Claim C9. The notice is chosen by the score alone, at the fixed tiers 30, 60 and 90:
  the critical notice from 90 on, the high-fatigue notice from 60 to 89, the warning with
  the formatted session duration from 30 to 59, and nothing at all below 30. A sink that
  raises leaves the error line only; the state after the alert gate, the state after any
  run and the snapshots written in it are the same whether the sink raises or accepts.
\<close>

theorem send_notification_tiers:
  "(90 \<le> s \<and> sink_ok tk \<longrightarrow>
      notices (send_notification tk st s)
        = [\<lparr>title = Critical_alert,
            message = ''You've been working way too long! Please rest NOW.'',
            app_name = ''SleepGuard'', timeout = 10\<rparr>])
   \<and> (60 \<le> s \<and> s < 90 \<and> sink_ok tk \<longrightarrow>
      notices (send_notification tk st s)
        = [\<lparr>title = High_fatigue_detected,
            message = ''Consider taking a break soon. Your productivity is declining.'',
            app_name = ''SleepGuard'', timeout = 8\<rparr>])
   \<and> (30 \<le> s \<and> s < 60 \<and> sink_ok tk \<longrightarrow>
      notices (send_notification tk st s)
        = [\<lparr>title = Fatigue_warning,
            message = ''You've been working for '' @ get_session_duration (now_notify tk) st
                      @ ''. Time for a break?'',
            app_name = ''SleepGuard'', timeout = 5\<rparr>])
   \<and> (s < 30 \<longrightarrow> send_notification tk st s = [])
   \<and> (30 \<le> s \<and> \<not> sink_ok tk \<longrightarrow>
        send_notification tk st s = [Print_error_sending_notification])
   \<and> snd (alert_gate (tk\<lparr>sink_ok := False\<rparr>) s st) = snd (alert_gate (tk\<lparr>sink_ok := True\<rparr>) s st)
   \<and> (\<forall>inputs s0. snd (run (map (with_sink False) inputs) s0)
                      = snd (run (map (with_sink True) inputs) s0)
                  \<and> save_times (fst (run (map (with_sink False) inputs) s0))
                      = save_times (fst (run (map (with_sink True) inputs) s0)))"
proof -
  have t: "(90 \<le> s \<and> sink_ok tk \<longrightarrow>
      notices (send_notification tk st s)
        = [\<lparr>title = Critical_alert,
            message = ''You've been working way too long! Please rest NOW.'',
            app_name = ''SleepGuard'', timeout = 10\<rparr>])
   \<and> (60 \<le> s \<and> s < 90 \<and> sink_ok tk \<longrightarrow>
      notices (send_notification tk st s)
        = [\<lparr>title = High_fatigue_detected,
            message = ''Consider taking a break soon. Your productivity is declining.'',
            app_name = ''SleepGuard'', timeout = 8\<rparr>])
   \<and> (30 \<le> s \<and> s < 60 \<and> sink_ok tk \<longrightarrow>
      notices (send_notification tk st s)
        = [\<lparr>title = Fatigue_warning,
            message = ''You've been working for '' @ get_session_duration (now_notify tk) st
                      @ ''. Time for a break?'',
            app_name = ''SleepGuard'', timeout = 5\<rparr>])
   \<and> (s < 30 \<longrightarrow> send_notification tk st s = [])
   \<and> (30 \<le> s \<and> \<not> sink_ok tk \<longrightarrow>
        send_notification tk st s = [Print_error_sending_notification])"
    by (simp add: send_notification_def notify_def)
  have g: "snd (alert_gate (tk\<lparr>sink_ok := False\<rparr>) s st) = snd (alert_gate (tk\<lparr>sink_ok := True\<rparr>) s st)"
    by (simp add: alert_gate_sink)
  have r: "\<forall>inputs s0. snd (run (map (with_sink False) inputs) s0)
                      = snd (run (map (with_sink True) inputs) s0)
                  \<and> save_times (fst (run (map (with_sink False) inputs) s0))
                      = save_times (fst (run (map (with_sink True) inputs) s0))"
    by (simp add: run_sink)
  from t g r show ?thesis by blast
qed

text \<open>
  Scores 95, 72, 45 (three hours and two minutes into the session) and 10, and a sink
  that raises.
\<close>

theorem send_notification_tiers_witness:
  "notices (send_notification (tick_at 0) (init default_config 0 0) 95)
     = [\<lparr>title = Critical_alert,
         message = ''You've been working way too long! Please rest NOW.'',
         app_name = ''SleepGuard'', timeout = 10\<rparr>]
   \<and> notices (send_notification (tick_at 0) (init default_config 0 0) 72)
     = [\<lparr>title = High_fatigue_detected,
         message = ''Consider taking a break soon. Your productivity is declining.'',
         app_name = ''SleepGuard'', timeout = 8\<rparr>]
   \<and> notices (send_notification (tick_at (3 * 3600000000 + 125000000))
        (init default_config 0 0) 45)
     = [\<lparr>title = Fatigue_warning,
         message = ''You've been working for 3h 2m. Time for a break?'',
         app_name = ''SleepGuard'', timeout = 5\<rparr>]
   \<and> send_notification (tick_at 0) (init default_config 0 0) 10 = []
   \<and> send_notification ((tick_at 0)\<lparr>sink_ok := False\<rparr>) (init default_config 0 0) 95
     = [Print_error_sending_notification]
   \<and> snd (run (map (with_sink False) [Evaluate (tick_at 0)]) (init default_config 0 0, 0))
     = snd (run (map (with_sink True) [Evaluate (tick_at 0)]) (init default_config 0 0, 0))"
proof -
  let ?st = "init default_config 0 0"
  note t = send_notification_tiers [where st = ?st]
  have ok: "sink_ok (tick_at t)" for t by (simp add: tick_at_def)
  have a: "notices (send_notification (tick_at 0) ?st 95)
     = [\<lparr>title = Critical_alert,
         message = ''You've been working way too long! Please rest NOW.'',
         app_name = ''SleepGuard'', timeout = 10\<rparr>]"
    using t [where s = 95 and tk = "tick_at 0"] ok by simp
  have b: "notices (send_notification (tick_at 0) ?st 72)
     = [\<lparr>title = High_fatigue_detected,
         message = ''Consider taking a break soon. Your productivity is declining.'',
         app_name = ''SleepGuard'', timeout = 8\<rparr>]"
    using t [where s = 72 and tk = "tick_at 0"] ok by simp
  have n: "now_notify (tick_at (3 * 3600000000 + 125000000)) = 3 * 3600000000 + 125000000"
    by (simp add: tick_at_def)
  have c: "notices (send_notification (tick_at (3 * 3600000000 + 125000000)) ?st 45)
     = [\<lparr>title = Fatigue_warning,
         message = ''You've been working for 3h 2m. Time for a break?'',
         app_name = ''SleepGuard'', timeout = 5\<rparr>]"
    using t [where s = 45 and tk = "tick_at (3 * 3600000000 + 125000000)"] ok
    unfolding n session_duration_example by simp
  have d: "send_notification (tick_at 0) ?st 10 = []"
    using t [where s = 10 and tk = "tick_at 0"] by simp
  have e: "send_notification ((tick_at 0)\<lparr>sink_ok := False\<rparr>) ?st 95
     = [Print_error_sending_notification]"
    using t [where s = 95 and tk = "(tick_at 0)\<lparr>sink_ok := False\<rparr>"] by simp
  have f: "snd (run (map (with_sink False) [Evaluate (tick_at 0)]) (?st, 0))
     = snd (run (map (with_sink True) [Evaluate (tick_at 0)]) (?st, 0))"
    using t [where s = 0 and tk = "tick_at 0"] by blast
  from a b c d e f show ?thesis by blast
qed

section \<open>Properties of the periodic save\<close>











section \<open>Evaluation after typing has stopped\<close>

lemma snapshots_append: "snapshots (xs @ ys) = snapshots xs @ snapshots ys"
  by (induction xs rule: snapshots.induct) simp_all

lemma snapshots_send_notification: "snapshots (send_notification tk st s) = []"
  by (simp add: send_notification_def notify_def)

lemma typing_daemon_eq:
  "typing_daemon = (init default_config 0 0)
     \<lparr>keystroke_count := 3, last_keystroke_time := 58000000,
      keystroke_history := [1000000, 50000000, 58000000]\<rparr>"
  by (simp add: typing_daemon_def on_press_def Let_def init_def default_config_def get_def
      timedelta_seconds_def)

lemma typing_daemon_score: "calculate_fatigue_score 1000000000 typing_daemon = Inr 37"
  unfolding typing_daemon_eq
  by (simp add: calculate_fatigue_score_def init_def default_config_def hour_def
      time_score_def get_def hours_past_bedtime_def total_seconds_def duration_score_def
      keystroke_rate_score_def py_int_def)

text \<open>
  Claim C5 says that an evaluation made when the last key press is older than the window
  reports a count of 0. The loop body does not prune: it leaves the history as the last
  \<open>on_press\<close> left it (\<open>monitor_cycle_history\<close>). After presses at seconds 1, 50 and 58
  an evaluation at second 1000 still counts 3 events: the snapshot it writes has rate 3,
  and the rate factor of the score is 30, not the 25 of an empty history.
\<close>

theorem stale_rate_after_typing_stops:
  "last_keystroke_time typing_daemon
      + timedelta_seconds (get (keystroke_window_seconds (config typing_daemon)) 60)
      < now_score (tick_at 1000000000)
   \<and> keystroke_history (fst (snd (monitor_cycle (tick_at 1000000000) (typing_daemon, 0))))
      = [1000000, 50000000, 58000000]
   \<and> get_keystroke_rate (fst (snd (monitor_cycle (tick_at 1000000000) (typing_daemon, 0)))) = 3
   \<and> map current_keystroke_rate
        (snapshots (fst (monitor_cycle (tick_at 1000000000) (typing_daemon, 0)))) = [3]
   \<and> keystroke_rate_score (keystroke_history typing_daemon) = 30
   \<and> calculate_fatigue_score (now_score (tick_at 1000000000)) typing_daemon = Inr 37"
proof -
  have h: "keystroke_history (fst (snd (monitor_cycle (tick_at 1000000000) (typing_daemon, 0))))
      = [1000000, 50000000, 58000000]"
    unfolding monitor_cycle_history by (simp add: typing_daemon_eq)
  have r: "get_keystroke_rate (fst (snd (monitor_cycle (tick_at 1000000000) (typing_daemon, 0)))) = 3"
    unfolding get_keystroke_rate_def h by simp
  have t: "last_keystroke_time typing_daemon
      + timedelta_seconds (get (keystroke_window_seconds (config typing_daemon)) 60)
      < now_score (tick_at 1000000000)"
    by (simp add: typing_daemon_eq tick_at_def init_def default_config_def get_def
        timedelta_seconds_def)
  have n: "now_score (tick_at 1000000000) = 1000000000"
    by (simp add: tick_at_def)
  have k: "keystroke_rate_score (keystroke_history typing_daemon) = 30"
    by (simp add: typing_daemon_eq keystroke_rate_score_def)
  have s: "map current_keystroke_rate
        (snapshots (fst (monitor_cycle (tick_at 1000000000) (typing_daemon, 0)))) = [3]"
    by (simp add: monitor_cycle_def n typing_daemon_score Let_def split_beta snapshots_append
        alert_gate_def snapshots_send_notification save_stats_def get_keystroke_rate_def
        total_seconds_def split: option.splits)
      (simp add: typing_daemon_eq tick_at_def init_def default_config_def get_def)
  from t h r s k typing_daemon_score n show ?thesis by simp
qed

end
